theory Spec2Isabelle
  imports Main "HOL-Library.AList" "HOL-Library.Char_ord" "HOL-Library.List_Lexorder"
begin

section \<open>Python values and dictionaries\<close>

text \<open>
  The argument translator (\<^verbatim>\<open>parse_yolo_args\<close> in \<^verbatim>\<open>app/ultra.py\<close>,
  \<^verbatim>\<open>process_request_args\<close> in \<^verbatim>\<open>app/main.py\<close>) looks at a parameter
  value in three ways only: \<^verbatim>\<open>value is None\<close>, \<^verbatim>\<open>isinstance(value, bool)\<close>
  with the truth of a bool, and \<^verbatim>\<open>str(value)\<close> (an f-string formats these types
  as \<^verbatim>\<open>str\<close> does). A value that is neither \<^verbatim>\<open>None\<close>, a bool, an
  int nor a str (a float, a list, ...) is therefore given by its \<^verbatim>\<open>str()\<close> text.
\<close>

datatype py_value =
    PyNone
  | PyBool bool
  | PyInt int
  | PyStr string
  | PyObj string

text \<open>
  A Python dict keeps its keys in insertion order and holds each key once: an association
  list whose keys are distinct. \<^verbatim>\<open>d[k] = v\<close> is \<^const>\<open>AList.update\<close>
  (the value is replaced in place when the key is there, the pair is appended otherwise),
  \<^verbatim>\<open>k in d\<close> and \<^verbatim>\<open>d[k]\<close> are \<^const>\<open>map_of\<close>, \<^verbatim>\<open>d.pop(k, _)\<close>
  removes the key with \<^const>\<open>AList.delete\<close>.
\<close>

type_synonym py_dict = "(string \<times> py_value) list"

subsection \<open>\<^verbatim>\<open>str()\<close> of the values\<close>

definition digit_char :: "nat \<Rightarrow> char" where
  "digit_char d = ''0123456789'' ! d"

fun str_nat :: "nat \<Rightarrow> string" where
  "str_nat n = (if n < 10 then [digit_char n] else str_nat (n div 10) @ [digit_char (n mod 10)])"

declare str_nat.simps [simp del]

definition str_int :: "int \<Rightarrow> string" where
  "str_int i = (if i < 0 then CHR ''-'' # str_nat (nat (- i)) else str_nat (nat i))"

fun py_str :: "py_value \<Rightarrow> string" where
  "py_str PyNone = ''None''"
| "py_str (PyBool b) = (if b then ''True'' else ''False'')"
| "py_str (PyInt i) = str_int i"
| "py_str (PyStr s) = s"
| "py_str (PyObj t) = t"

section \<open>The argument translator\<close>

subsection \<open>\<^verbatim>\<open>parse_yolo_args\<close> (app/ultra.py)\<close>

text \<open>
  \<^verbatim>\<open>TORCH_AVAILABLE and torch.cuda.is_available()\<close>: the two facts about the process
  environment are parameters of the model, \<open>torch_available\<close> and \<open>cuda_is_available\<close>.
\<close>

definition resolved_device :: "bool \<Rightarrow> bool \<Rightarrow> string" where
  "resolved_device torch_available cuda_is_available =
     (if torch_available \<and> cuda_is_available then ''cuda'' else ''cpu'')"

text \<open>
  The first statement of \<^verbatim>\<open>parse_yolo_args\<close> writes into the dict it was given:
  \<^verbatim>\<open>
    if 'device' not in args_dict or args_dict['device'] is None:
        if TORCH_AVAILABLE and torch.cuda.is_available():
            args_dict['device'] = 'cuda'
        else:
            args_dict['device'] = 'cpu'
  \<close>
\<close>

definition resolve_device :: "bool \<Rightarrow> bool \<Rightarrow> py_dict \<Rightarrow> py_dict" where
  "resolve_device torch_available cuda_is_available args_dict =
     (if map_of args_dict ''device'' = None \<or> map_of args_dict ''device'' = Some PyNone
      then AList.update ''device'' (PyStr (resolved_device torch_available cuda_is_available)) args_dict
      else args_dict)"

text \<open>
  One turn of the loop \<^verbatim>\<open>for key, value in args_dict.items()\<close>, on the list
  \<open>args\<close> built so far:
  \<^verbatim>\<open>
    if value is not None:
        if isinstance(value, bool):
            if value:
                args.append(f"--{key}")
        else:
            args.extend([f"--{key}", str(value)])
  \<close>
\<close>

fun emit_arg :: "string list \<Rightarrow> string \<times> py_value \<Rightarrow> string list" where
  "emit_arg args (key, PyNone) = args"
| "emit_arg args (key, PyBool b) = (if b then args @ [''--'' @ key] else args)"
| "emit_arg args (key, v) = args @ [''--'' @ key, py_str v]"

text \<open>
  The function returns the token list; the dict it has written to is the caller's object,
  so the model returns both: the dict as the caller sees it afterwards, and the tokens.
\<close>

definition parse_yolo_args :: "bool \<Rightarrow> bool \<Rightarrow> py_dict \<Rightarrow> py_dict \<times> string list" where
  "parse_yolo_args torch_available cuda_is_available args_dict =
     (let args_dict' = resolve_device torch_available cuda_is_available args_dict
      in (args_dict', foldl emit_arg [] args_dict'))"

subsection \<open>\<^verbatim>\<open>process_request_args\<close> (app/main.py)\<close>

text \<open>
  \<^verbatim>\<open>request_data\<close> is the dict \<^verbatim>\<open>request.dict()\<close> of a request model of
  \<^verbatim>\<open>app/schemas.py\<close>, where \<^verbatim>\<open>extra_args\<close> is declared
  \<^verbatim>\<open>Optional[Dict[str, Any]]\<close>. The function pops that entry before anything else,
  so the model keeps it apart from the other entries: \<open>extra_args r\<close> is \<open>None\<close> when
  the key is absent, \<open>Some None\<close> when its value is \<^verbatim>\<open>None\<close>, and
  \<open>Some (Some d)\<close> when it is the dict \<open>d\<close>; \<open>entries r\<close> holds every other entry,
  in order.
\<close>

record request_data =
  entries :: py_dict
  extra_args :: "py_dict option option"

text \<open>\<^verbatim>\<open>request_data.pop('extra_args', {})\<close>: the default is the empty dict.\<close>

definition pop_extra_args :: "request_data \<Rightarrow> py_dict option" where
  "pop_extra_args r = (case extra_args r of None \<Rightarrow> Some [] | Some v \<Rightarrow> v)"

text \<open>
  One turn of the loop over \<^verbatim>\<open>extra_args.items()\<close>:
  \<^verbatim>\<open>
    if value is not None:
        if isinstance(value, bool):
            if value:
                args.append(f"{key}")
        else:
            args.append(f"{key}={value}")
  \<close>
\<close>

fun emit_extra :: "string list \<Rightarrow> string \<times> py_value \<Rightarrow> string list" where
  "emit_extra args (key, PyNone) = args"
| "emit_extra args (key, PyBool b) = (if b then args @ [key] else args)"
| "emit_extra args (key, v) = args @ [key @ ''='' @ py_str v]"

text \<open>
  \<^verbatim>\<open>if extra_args:\<close> is false for \<^verbatim>\<open>None\<close> and for the empty dict. The
  result is the token list; the request dict after the call has lost \<^verbatim>\<open>extra_args\<close>
  and \<^verbatim>\<open>task\<close> and carries what \<^verbatim>\<open>parse_yolo_args\<close> wrote.
\<close>

definition process_request_args :: "bool \<Rightarrow> bool \<Rightarrow> request_data \<Rightarrow> string list" where
  "process_request_args torch_available cuda_is_available r =
     (let extra = pop_extra_args r;
          request_data = AList.delete ''task'' (entries r);
          args = snd (parse_yolo_args torch_available cuda_is_available request_data)
      in (case extra of
            None \<Rightarrow> args
          | Some d \<Rightarrow> if d = [] then args else foldl emit_extra args d))"

section \<open>Scanning the captured text\<close>

subsection \<open>The regular expressions of the source\<close>

text \<open>
  A \<open>char\<close> is a code point below 256. Every pattern of \<^verbatim>\<open>app/ultra.py\<close> is a
  sequence of literal text and of greedy repetitions of one character class, some of them
  capturing groups. The classes, as Python's \<^verbatim>\<open>re\<close> reads them on \<^verbatim>\<open>str\<close>:
  \<^verbatim>\<open>\s\<close> is the white space of \<^verbatim>\<open>str.isspace\<close>, \<^verbatim>\<open>\d\<close> a decimal digit,
  \<^verbatim>\<open>[\d.]\<close> a digit or a dot, \<^verbatim>\<open>.\<close> anything but a line feed.
\<close>

datatype char_class = Whitespace | Digit | DigitOrDot | NotNewline

definition is_space :: "char \<Rightarrow> bool" where
  "is_space c = (let n = (of_char c :: nat)
                 in (9 \<le> n \<and> n \<le> 13) \<or> (28 \<le> n \<and> n \<le> 32) \<or> n = 133 \<or> n = 160)"

definition is_digit :: "char \<Rightarrow> bool" where
  "is_digit c = (c \<in> set ''0123456789'')"

fun in_class :: "char_class \<Rightarrow> char \<Rightarrow> bool" where
  "in_class Whitespace c = is_space c"
| "in_class Digit c = is_digit c"
| "in_class DigitOrDot c = (is_digit c \<or> c = CHR ''.'')"
| "in_class NotNewline c = (c \<noteq> CHR 0x0A)"

text \<open>
  \<open>Chars l\<close> is the literal text \<open>l\<close>; \<open>Rep lo cl cap\<close> is \<open>cl*\<close> (\<open>lo = 0\<close>) or
  \<open>cl+\<close> (\<open>lo = 1\<close>), a capturing group when \<open>cap\<close> holds.
\<close>

datatype piece = Chars string | Rep nat char_class bool

type_synonym pattern = "piece list"

fun strip_prefix :: "string \<Rightarrow> string \<Rightarrow> string option" where
  "strip_prefix [] s = Some s"
| "strip_prefix (c # cs) [] = None"
| "strip_prefix (c # cs) (x # xs) = (if c = x then strip_prefix cs xs else None)"

text \<open>
  A greedy repetition takes as many characters as the class allows, \<open>n\<close> of them, and
  gives them back one at a time, down to \<open>lo\<close>, until the rest of the pattern (\<open>k\<close>)
  matches what follows.
\<close>

fun backtrack :: "(string \<Rightarrow> 'a option) \<Rightarrow> string \<Rightarrow> nat \<Rightarrow> nat \<Rightarrow> (nat \<times> 'a) option" where
  "backtrack k s lo 0 =
     (if 0 < lo then None else (case k s of Some r \<Rightarrow> Some (0, r) | None \<Rightarrow> None))"
| "backtrack k s lo (Suc n) =
     (if Suc n < lo then None
      else (case k (drop (Suc n) s) of Some r \<Rightarrow> Some (Suc n, r) | None \<Rightarrow> backtrack k s lo n))"

text \<open>
  \<open>match_here p s\<close>: the match of \<open>p\<close> that starts at the first character of \<open>s\<close>,
  as the groups' texts and the text left after the match.
\<close>

primrec match_here :: "pattern \<Rightarrow> string \<Rightarrow> (string list \<times> string) option" where
  "match_here [] = (\<lambda>s. Some ([], s))"
| "match_here (p # ps) = (\<lambda>s.
     (case p of
        Chars l \<Rightarrow> (case strip_prefix l s of None \<Rightarrow> None | Some s' \<Rightarrow> match_here ps s')
      | Rep lo cl cap \<Rightarrow>
          (case backtrack (match_here ps) s lo (length (takeWhile (in_class cl) s)) of
             None \<Rightarrow> None
           | Some (n, groups, rest) \<Rightarrow> Some ((if cap then [take n s] else []) @ groups, rest))))"

text \<open>
  \<^verbatim>\<open>re.findall\<close>: the matches from left to right, none overlapping another; the search
  goes on where the last match ended (one character further after an empty match). Each
  match is given by the list of its groups' texts (Python gives the text itself when the
  pattern has one group, and a tuple when it has more).
\<close>

function findall :: "pattern \<Rightarrow> string \<Rightarrow> string list list" where
  "findall p s =
     (case match_here p s of
        Some (groups, rest) \<Rightarrow>
          (if length rest < length s then groups # findall p rest
           else (case s of [] \<Rightarrow> [groups] | c # s' \<Rightarrow> groups # findall p s'))
      | None \<Rightarrow> (case s of [] \<Rightarrow> [] | c # s' \<Rightarrow> findall p s'))"
  by pat_completeness auto
termination
  by (relation "measure (\<lambda>(p, s). length s)") auto

declare findall.simps [simp del]

definition epoch_pattern :: pattern where
  "epoch_pattern = [Chars ''Epoch'', Rep 1 Whitespace False, Rep 1 Digit True, Chars ''/'', Rep 1 Digit True]"

text \<open>\<^verbatim>\<open>r"box_loss:\s*([\d.]+)"\<close> and the patterns of the same shape.\<close>

definition labelled_number :: "string \<Rightarrow> pattern" where
  "labelled_number label = [Chars (label @ '':''), Rep 0 Whitespace False, Rep 1 DigitOrDot True]"

definition loss_patterns :: "(string \<times> pattern) list" where
  "loss_patterns =
     [(''box_loss'', labelled_number ''box_loss''),
      (''obj_loss'', labelled_number ''obj_loss''),
      (''cls_loss'', labelled_number ''cls_loss''),
      (''total_loss'', labelled_number ''total_loss'')]"

definition map_patterns :: "(string \<times> pattern) list" where
  "map_patterns =
     [(''mAP50'', labelled_number ''mAP50''),
      (''mAP50-95'', labelled_number ''mAP50-95'')]"

definition precision_pattern :: pattern where
  "precision_pattern = labelled_number ''Precision''"

definition recall_pattern :: pattern where
  "recall_pattern = labelled_number ''Recall''"

definition inference_pattern :: pattern where
  "inference_pattern = [Chars ''inference:'', Rep 0 Whitespace False, Rep 1 DigitOrDot True, Chars ''ms'']"

definition detection_pattern :: pattern where
  "detection_pattern = [Rep 1 Digit True, Rep 1 Whitespace False, Chars ''detections'']"

definition export_pattern :: pattern where
  "export_pattern = [Chars ''Export complete ('', Rep 1 DigitOrDot True, Chars ''s)'']"

definition file_pattern :: pattern where
  "file_pattern = [Chars ''Results saved to '', Rep 1 NotNewline True]"

subsection \<open>Exceptions and conversions\<close>

text \<open>
  The exceptions that \<^verbatim>\<open>run_ultralytics\<close> tells apart: the two of
  \<^verbatim>\<open>subprocess\<close> it names, and any other instance of \<^verbatim>\<open>Exception\<close>, given by
  its \<^verbatim>\<open>str(e)\<close>.
\<close>

datatype py_exception =
    TimeoutExpired
  | CalledProcessError int "string option" "string option"
  | PyException string

text \<open>
  A metric is an int, a float, a str or the content of a parsed result file (of a type
  \<open>'d\<close> that this code never looks into). A float is given by the text that
  \<^verbatim>\<open>float()\<close> was applied to (its value is the double nearest to that decimal
  literal; the rounding is not modelled).
\<close>

datatype 'd metric_value = MInt int | MFloat string | MStr string | MData 'd

type_synonym 'd metrics = "(string \<times> 'd metric_value) list"

text \<open>\<^verbatim>\<open>int()\<close> on a run of digits (Python's ints are unbounded).\<close>

definition py_int :: "string \<Rightarrow> int" where
  "py_int s = foldl (\<lambda>a c. 10 * a + (int (of_char c) - 48)) 0 s"

text \<open>
  \<^verbatim>\<open>float()\<close> on a text of digits and dots, which is all that \<^verbatim>\<open>([\d.]+)\<close>
  captures: the text is a float literal when it has a digit and at most one dot;
  otherwise \<^verbatim>\<open>float()\<close> raises \<^verbatim>\<open>ValueError\<close>.
\<close>

definition is_float_literal :: "string \<Rightarrow> bool" where
  "is_float_literal s = ((\<exists>c \<in> set s. is_digit c) \<and> length (filter (\<lambda>c. c = CHR ''.'') s) \<le> 1)"

definition py_float :: "string \<Rightarrow> py_exception + 'd metric_value" where
  "py_float s =
     (if is_float_literal s then Inr (MFloat s)
      else Inl (PyException (''could not convert string to float: '' @ [CHR 0x27] @ s @ [CHR 0x27])))"

text \<open>\<^verbatim>\<open>str.strip()\<close>: white space removed at both ends.\<close>

definition strip :: "string \<Rightarrow> string" where
  "strip s = rev (dropWhile is_space (rev (dropWhile is_space s)))"

text \<open>\<^verbatim>\<open>metrics.update(other)\<close>.\<close>

definition dict_update :: "('k \<times> 'v) list \<Rightarrow> ('k \<times> 'v) list \<Rightarrow> ('k \<times> 'v) list" where
  "dict_update d other = foldl (\<lambda>d kv. AList.update (fst kv) (snd kv) d) d other"

subsection \<open>The four text parsers\<close>

text \<open>
  The step the source repeats for every float metric:
  \<^verbatim>\<open>
    matches = re.findall(pattern, output)
    if matches:
        metrics[name] = float(matches[-1])
  \<close>
  \<^verbatim>\<open>float\<close> may raise, and then the parser is left at once.
\<close>

definition scan_float :: "string \<Rightarrow> pattern \<Rightarrow> string \<Rightarrow> 'd metrics \<Rightarrow> py_exception + 'd metrics" where
  "scan_float name pat output metrics =
     (let matches = findall pat output
      in if matches \<noteq> [] then
           (case py_float (last matches ! 0) of
              Inl e \<Rightarrow> Inl e
            | Inr v \<Rightarrow> Inr (AList.update name v metrics))
         else Inr metrics)"

text \<open>\<^verbatim>\<open>for loss_name, pattern in loss_patterns.items(): ...\<close>\<close>

fun scan_floats :: "(string \<times> pattern) list \<Rightarrow> string \<Rightarrow> 'd metrics \<Rightarrow> py_exception + 'd metrics" where
  "scan_floats [] output metrics = Inr metrics"
| "scan_floats ((name, pat) # ps) output metrics =
     (case scan_float name pat output metrics of
        Inl e \<Rightarrow> Inl e
      | Inr metrics' \<Rightarrow> scan_floats ps output metrics')"

definition parse_training_metrics :: "string \<Rightarrow> py_exception + 'd metrics" where
  "parse_training_metrics output =
     (let metrics = [];
          epoch_matches = findall epoch_pattern output;
          metrics = (if epoch_matches \<noteq> [] then
                       (let last_epoch = last epoch_matches;
                            metrics = AList.update ''current_epoch'' (MInt (py_int (last_epoch ! 0))) metrics
                        in AList.update ''total_epochs'' (MInt (py_int (last_epoch ! 1))) metrics)
                     else metrics)
      in (case scan_floats loss_patterns output metrics of
            Inl e \<Rightarrow> Inl e
          | Inr metrics \<Rightarrow> scan_floats map_patterns output metrics))"

definition parse_validation_metrics :: "string \<Rightarrow> py_exception + 'd metrics" where
  "parse_validation_metrics output =
     (let metrics = [];
          precision_matches = findall precision_pattern output;
          recall_matches = findall recall_pattern output
      in (case (if precision_matches \<noteq> []
                then (case py_float (last precision_matches ! 0) of
                        Inl e \<Rightarrow> Inl e
                      | Inr v \<Rightarrow> Inr (AList.update ''precision'' v metrics))
                else Inr metrics) of
            Inl e \<Rightarrow> Inl e
          | Inr metrics \<Rightarrow>
              (if recall_matches \<noteq> []
               then (case py_float (last recall_matches ! 0) of
                       Inl e \<Rightarrow> Inl e
                     | Inr v \<Rightarrow> Inr (AList.update ''recall'' v metrics))
               else Inr metrics)))"

definition parse_prediction_metrics :: "string \<Rightarrow> py_exception + 'd metrics" where
  "parse_prediction_metrics output =
     (case scan_float ''inference_time_ms'' inference_pattern output [] of
        Inl e \<Rightarrow> Inl e
      | Inr metrics \<Rightarrow>
          (let matches = findall detection_pattern output
           in if matches \<noteq> []
              then Inr (AList.update ''total_detections'' (MInt (py_int (last matches ! 0))) metrics)
              else Inr metrics))"

definition parse_export_metrics :: "string \<Rightarrow> py_exception + 'd metrics" where
  "parse_export_metrics output =
     (case scan_float ''export_time_s'' export_pattern output [] of
        Inl e \<Rightarrow> Inl e
      | Inr metrics \<Rightarrow>
          (let matches = findall file_pattern output
           in if matches \<noteq> []
              then Inr (AList.update ''exported_file'' (MStr (strip (last matches ! 0))) metrics)
              else Inr metrics))"

section \<open>The files left by the process\<close>

text \<open>
  The working directory after the process has ended, as a tree. A file is given by what
  the code can learn from it: \<open>Unreadable msg\<close> when \<^verbatim>\<open>open\<close> raises (with that
  message), \<open>Malformed msg\<close> when \<^verbatim>\<open>json.load\<close> or \<^verbatim>\<open>yaml.safe_load\<close> raises on
  it, \<open>Parsed d\<close> when the loader returns \<open>d\<close>. A directory lists its entries in the order
  in which \<^verbatim>\<open>os.scandir\<close> yields them.
\<close>

datatype 'd file_state = Unreadable string | Malformed string | Parsed 'd

datatype 'd fs_node = File "'d file_state" | Dir "(string \<times> 'd fs_node) list"

fun is_dir :: "'d fs_node \<Rightarrow> bool" where
  "is_dir (Dir es) = True"
| "is_dir (File f) = False"

text \<open>The components of a relative POSIX path, and the node a path leads to.\<close>

fun split_path :: "string \<Rightarrow> string list" where
  "split_path [] = [[]]"
| "split_path (c # cs) =
     (if c = CHR ''/'' then [] # split_path cs
      else (case split_path cs of [] \<Rightarrow> [[c]] | w # ws \<Rightarrow> (c # w) # ws))"

fun fs_lookup :: "'d fs_node \<Rightarrow> string list \<Rightarrow> 'd fs_node option" where
  "fs_lookup node [] = Some node"
| "fs_lookup (File f) (c # cs) = None"
| "fs_lookup (Dir es) (c # cs) = (case map_of es c of None \<Rightarrow> None | Some node \<Rightarrow> fs_lookup node cs)"

text \<open>\<^verbatim>\<open>os.path.join(root, file)\<close>, for a root that does not end with a slash.\<close>

definition path_join :: "string \<Rightarrow> string \<Rightarrow> string" where
  "path_join root name = root @ ''/'' @ name"

text \<open>
  \<^verbatim>\<open>os.walk(root)\<close>, top down: the triple of a directory, then the walks of its
  subdirectories in order. A \<open>root\<close> that is not a directory yields nothing.
\<close>

fun walk :: "string \<Rightarrow> 'd fs_node \<Rightarrow> (string \<times> string list \<times> string list) list" where
  "walk root (File f) = []"
| "walk root (Dir es) =
     (root, map fst (filter (\<lambda>e. is_dir (snd e)) es), map fst (filter (\<lambda>e. \<not> is_dir (snd e)) es))
     # concat (map (\<lambda>e. walk (path_join root (fst e)) (snd e)) (filter (\<lambda>e. is_dir (snd e)) es))"

text \<open>\<^verbatim>\<open>os.path.exists(path)\<close> followed by \<^verbatim>\<open>os.walk(path)\<close>.\<close>

definition walk_if_exists :: "'d fs_node \<Rightarrow> string \<Rightarrow> (string \<times> string list \<times> string list) list" where
  "walk_if_exists cwd path =
     (case fs_lookup cwd (split_path path) of None \<Rightarrow> [] | Some node \<Rightarrow> walk path node)"

definition endswith :: "string \<Rightarrow> string \<Rightarrow> bool" where
  "endswith s suffix = (length suffix \<le> length s \<and> drop (length s - length suffix) s = suffix)"

subsection \<open>\<^verbatim>\<open>_find_results_files\<close>\<close>

definition search_paths :: "string list" where
  "search_paths = [''runs/train'', ''runs/val'', ''runs/predict'', ''runs/export'', ''runs/track'', ''runs/benchmark'']"

definition is_results_name :: "string \<Rightarrow> bool" where
  "is_results_name file = (endswith file ''.yaml'' \<or> endswith file ''.yml'' \<or> endswith file ''.json'')"

definition find_results_files :: "'d fs_node \<Rightarrow> string list" where
  "find_results_files cwd =
     concat (map (\<lambda>search_path.
       concat (map (\<lambda>(root, dirs, files). map (path_join root) (filter is_results_name files))
                   (walk_if_exists cwd search_path)))
       search_paths)"

subsection \<open>\<^verbatim>\<open>_parse_results_file\<close>\<close>

text \<open>
  \<^verbatim>\<open>Path(file_path).stem\<close>: the last component of the path without its last suffix; a
  name has a suffix when its last dot is neither its first nor its last character.
\<close>

definition path_name :: "string \<Rightarrow> string" where
  "path_name p = last (split_path p)"

definition last_dot :: "string \<Rightarrow> nat option" where
  "last_dot name =
     (case filter (\<lambda>i. name ! i = CHR ''.'') (rev [0..<length name]) of [] \<Rightarrow> None | i # _ \<Rightarrow> Some i)"

definition stem :: "string \<Rightarrow> string" where
  "stem p =
     (let name = path_name p
      in (case last_dot name of
            None \<Rightarrow> name
          | Some i \<Rightarrow> if 0 < i \<and> i < length name - 1 then take i name else name))"

text \<open>
  The body of the \<^verbatim>\<open>try\<close> statement: \<^verbatim>\<open>open\<close>, then the loader that the extension
  selects, then the entry under \<^verbatim>\<open>f"file_{Path(file_path).stem}"\<close>. A path that leads
  to no file makes \<^verbatim>\<open>open\<close> raise. The handler uses nothing of an exception but its
  \<^verbatim>\<open>str(e)\<close>, so the body returns that message (\<open>Inl\<close>) or the entries.
\<close>

definition results_file_body :: "'d fs_node \<Rightarrow> string \<Rightarrow> string + 'd metrics" where
  "results_file_body cwd file_path =
     (case fs_lookup cwd (split_path file_path) of
        None \<Rightarrow> Inl (''[Errno 2] No such file or directory: '' @ [CHR 0x27] @ file_path @ [CHR 0x27])
      | Some (Dir es) \<Rightarrow> Inl (''[Errno 21] Is a directory: '' @ [CHR 0x27] @ file_path @ [CHR 0x27])
      | Some (File (Unreadable msg)) \<Rightarrow> Inl msg
      | Some (File (Malformed msg)) \<Rightarrow>
          (if endswith file_path ''.json'' then Inl msg
           else if endswith file_path ''.yaml'' \<or> endswith file_path ''.yml'' then Inl msg
           else Inr [])
      | Some (File (Parsed data)) \<Rightarrow>
          (if endswith file_path ''.json'' then Inr [(''file_'' @ stem file_path, MData data)]
           else if endswith file_path ''.yaml'' \<or> endswith file_path ''.yml''
             then Inr [(''file_'' @ stem file_path, MData data)]
           else Inr []))"

text \<open>\<^verbatim>\<open>except Exception as e\<close>: the message goes under the key with the error suffix.\<close>

definition parse_results_file :: "'d fs_node \<Rightarrow> string \<Rightarrow> 'd metrics" where
  "parse_results_file cwd file_path =
     (case results_file_body cwd file_path of
        Inr metrics \<Rightarrow> metrics
      | Inl msg \<Rightarrow> [(''file_'' @ stem file_path @ ''_error'', MStr msg)])"

subsection \<open>\<^verbatim>\<open>_parse_metrics_from_output\<close>\<close>

text \<open>
  The four text parsers run on \<^verbatim>\<open>stdout + "\n" + stderr\<close>, each merged into
  \<open>metrics\<close> with \<^verbatim>\<open>update\<close>; an exception of one of them leaves the function. Then
  every result file found is parsed and merged, in the order found.
\<close>

definition parse_metrics_from_output :: "'d fs_node \<Rightarrow> string \<Rightarrow> string \<Rightarrow> py_exception + 'd metrics" where
  "parse_metrics_from_output cwd stdout stderr =
     (let metrics = [];
          full_output = stdout @ [CHR 0x0A] @ stderr
      in (case parse_training_metrics full_output of Inl e \<Rightarrow> Inl e | Inr training \<Rightarrow>
         (let metrics = dict_update metrics training
          in (case parse_validation_metrics full_output of Inl e \<Rightarrow> Inl e | Inr validation \<Rightarrow>
         (let metrics = dict_update metrics validation
          in (case parse_prediction_metrics full_output of Inl e \<Rightarrow> Inl e | Inr prediction \<Rightarrow>
         (let metrics = dict_update metrics prediction
          in (case parse_export_metrics full_output of Inl e \<Rightarrow> Inl e | Inr export \<Rightarrow>
         (let metrics = dict_update metrics export;
              results_files = find_results_files cwd
          in Inr (foldl (\<lambda>metrics file_path. dict_update metrics (parse_results_file cwd file_path))
                        metrics results_files))))))))))"

subsection \<open>\<^verbatim>\<open>_find_artifacts\<close>\<close>

definition output_dirs :: "string list" where
  "output_dirs = [''runs'', ''weights'', ''results'', ''exports'']"

text \<open>
  \<^verbatim>\<open>os.path.relpath(full_path)\<close> of a path that is relative to the working directory
  and has no \<^verbatim>\<open>.\<close> or \<^verbatim>\<open>..\<close> component is the path itself. \<^verbatim>\<open>sorted\<close>
  orders strings by code points.
\<close>

definition find_artifacts :: "'d fs_node \<Rightarrow> string list" where
  "find_artifacts cwd =
     sort (concat (map (\<lambda>output_dir.
       concat (map (\<lambda>(root, dirs, files). map (path_join root) files)
                   (walk_if_exists cwd output_dir)))
       output_dirs))"

section \<open>\<^verbatim>\<open>run_ultralytics\<close>\<close>

text \<open>
  What \<^verbatim>\<open>subprocess.run(full_command, capture_output=True, text=True, timeout=3600)\<close>
  does is not this program's code; its outcome is a parameter: an exception, or a
  completed process with its return code, standard output and standard error. A process
  that a signal has ended is a completed process, with the negative signal number as its
  return code.
\<close>

datatype completed_process = CompletedProcess int string string

record 'd world =
  process :: "py_exception + completed_process"
  cwd :: "'d fs_node"

record 'd result_dict =
  command :: string
  return_code :: "int option"
  stdout :: string
  stderr :: string
  metrics :: "'d metrics"
  artifacts :: "string list"
  success :: bool

text \<open>\<^verbatim>\<open>" ".join(full_command)\<close>\<close>

fun str_join :: "string \<Rightarrow> string list \<Rightarrow> string" where
  "str_join sep [] = []"
| "str_join sep [x] = x"
| "str_join sep (x # y # ys) = x @ sep @ str_join sep (y # ys)"

definition initial_result :: "string list \<Rightarrow> 'd result_dict" where
  "initial_result args =
     \<lparr>command = str_join '' '' (''yolo'' # args), return_code = None, stdout = [], stderr = [],
      metrics = [], artifacts = [], success = False\<rparr>"

text \<open>
  The body of the \<^verbatim>\<open>try\<close> statement writes into \<open>result_dict\<close> as it goes, so what
  it had written when an exception left it stays written: the body returns the dict and
  the exception, if any.
\<close>

definition try_body :: "'d world \<Rightarrow> 'd result_dict \<Rightarrow> 'd result_dict \<times> py_exception option" where
  "try_body w result_dict =
     (case process w of
        Inl e \<Rightarrow> (result_dict, Some e)
      | Inr (CompletedProcess returncode out err) \<Rightarrow>
          (let result_dict = result_dict\<lparr>return_code := Some returncode, stdout := out, stderr := err,
                                         success := (returncode = 0)\<rparr>
           in (case parse_metrics_from_output (cwd w) out err of
                 Inl e \<Rightarrow> (result_dict, Some e)
               | Inr m \<Rightarrow>
                   (let result_dict = result_dict\<lparr>metrics := m\<rparr>;
                        result_dict = result_dict\<lparr>artifacts := find_artifacts (cwd w)\<rparr>
                    in (result_dict, None)))))"

text \<open>The three \<^verbatim>\<open>except\<close> clauses, in the order of the source.\<close>

fun handle :: "'d result_dict \<Rightarrow> py_exception \<Rightarrow> 'd result_dict" where
  "handle result_dict TimeoutExpired =
     result_dict\<lparr>return_code := Some (- 1), stderr := ''Command timed out after 1 hour'', success := False\<rparr>"
| "handle result_dict (CalledProcessError returncode out err) =
     result_dict\<lparr>return_code := Some returncode,
                 stdout := (case out of None \<Rightarrow> [] | Some t \<Rightarrow> t),
                 stderr := (case err of None \<Rightarrow> [] | Some t \<Rightarrow> t),
                 success := False\<rparr>"
| "handle result_dict (PyException msg) =
     result_dict\<lparr>return_code := Some (- 1), stderr := ''Unexpected error: '' @ msg, success := False\<rparr>"

definition run_ultralytics :: "'d world \<Rightarrow> string list \<Rightarrow> 'd result_dict" where
  "run_ultralytics w args =
     (case try_body w (initial_result args) of
        (result_dict, None) \<Rightarrow> result_dict
      | (result_dict, Some e) \<Rightarrow> handle result_dict e)"

text \<open>
  \<^verbatim>\<open>subprocess\<close> raises \<^verbatim>\<open>CalledProcessError\<close> for a return code other than zero
  only (and \<^verbatim>\<open>run\<close> raises it only when called with \<^verbatim>\<open>check=True\<close>).
\<close>

fun raisable :: "py_exception \<Rightarrow> bool" where
  "raisable (CalledProcessError returncode out err) = (returncode \<noteq> 0)"
| "raisable e = True"

definition possible :: "'d world \<Rightarrow> bool" where
  "possible w = (case process w of Inl e \<Rightarrow> raisable e | Inr p \<Rightarrow> True)"

section \<open>The specification's wording\<close>

text \<open>
  The flag rules as the specification words them, entry by entry: nothing for a null
  value, the bare flag for \<^verbatim>\<open>true\<close>, nothing for \<^verbatim>\<open>false\<close>, the flag and the
  value's string representation otherwise.
\<close>

fun spec_flag_tokens :: "string \<times> py_value \<Rightarrow> string list" where
  "spec_flag_tokens (key, v) =
     (if v = PyNone then []
      else if v = PyBool True then [''--'' @ key]
      else if v = PyBool False then []
      else [''--'' @ key, py_str v])"

text \<open>The equals-form convention of the extra parameters, worded the same way.\<close>

fun spec_extra_tokens :: "string \<times> py_value \<Rightarrow> string list" where
  "spec_extra_tokens (key, v) =
     (if v = PyNone then []
      else if v = PyBool True then [key]
      else if v = PyBool False then []
      else [key @ ''='' @ py_str v])"



section \<open>Properties of the argument translator\<close>

lemma emit_arg_spec: "emit_arg args e = args @ spec_flag_tokens e"
proof (cases e)
  case (Pair key v)
  then show ?thesis by (cases v) auto
qed

lemma foldl_emit_arg: "foldl emit_arg args d = args @ concat (map spec_flag_tokens d)"
proof (induction d arbitrary: args)
  case Nil
  show ?case by simp
next
  case (Cons e d)
  have "foldl emit_arg args (e # d) = foldl emit_arg (emit_arg args e) d" by simp
  also have "\<dots> = emit_arg args e @ concat (map spec_flag_tokens d)" by (rule Cons.IH)
  also have "\<dots> = args @ concat (map spec_flag_tokens (e # d))" by (simp add: emit_arg_spec)
  finally show ?case .
qed

lemma emit_extra_spec: "emit_extra args e = args @ spec_extra_tokens e"
proof (cases e)
  case (Pair key v)
  then show ?thesis by (cases v) auto
qed

lemma foldl_emit_extra: "foldl emit_extra args d = args @ concat (map spec_extra_tokens d)"
proof (induction d arbitrary: args)
  case Nil
  show ?case by simp
next
  case (Cons e d)
  have "foldl emit_extra args (e # d) = foldl emit_extra (emit_extra args e) d" by simp
  also have "\<dots> = emit_extra args e @ concat (map spec_extra_tokens d)" by (rule Cons.IH)
  also have "\<dots> = args @ concat (map spec_extra_tokens (e # d))" by (simp add: emit_extra_spec)
  finally show ?case .
qed

lemma update_split: "\<exists>xs ys. AList.update k v d = xs @ (k, v) # ys"
proof (induction d)
  case Nil
  have "AList.update k v [] = [] @ (k, v) # []" by simp
  then show ?case by blast
next
  case (Cons e d)
  show ?case
  proof (cases "fst e = k")
    case True
    then have "AList.update k v (e # d) = [] @ (k, v) # d" by simp
    then show ?thesis by blast
  next
    case False
    from Cons.IH obtain xs ys where "AList.update k v d = xs @ (k, v) # ys" by blast
    with False have "AList.update k v (e # d) = (e # xs) @ (k, v) # ys" by simp
    then show ?thesis by blast
  qed
qed

lemma update_filter_others:
  "filter (\<lambda>e. fst e \<noteq> k) (AList.update k v d) = filter (\<lambda>e. fst e \<noteq> k) d"
  by (induction d) auto

lemma update_key_order:
  "map fst (AList.update k v d) = (if k \<in> fst ` set d then map fst d else map fst d @ [k])"
  by (induction d) auto

text \<open>
  C6, as stated: the tokens are those of the mapping's entries, one entry after the other.
  This fails for the key \<open>device\<close>: a null device makes the translator emit the device
  flag with the resolved identifier.
\<close>

theorem parse_yolo_args_null_device_counterexample:
  "snd (parse_yolo_args False False [(''device'', PyNone)]) = [''--device'', ''cpu'']
   \<and> concat (map spec_flag_tokens [(''device'', PyNone)]) = []"
  by (simp add: parse_yolo_args_def resolve_device_def resolved_device_def)

text \<open>
  C6, amended: the tokens are those of the entries of the mapping after device resolution,
  in the mapping's order, each by the flag rules; for a mapping that carries a non-null
  device, they are those of the entries of the mapping itself.
\<close>

theorem parse_yolo_args_tokens:
  "snd (parse_yolo_args t c d) = concat (map spec_flag_tokens (resolve_device t c d))
   \<and> (map_of d ''device'' \<noteq> None \<and> map_of d ''device'' \<noteq> Some PyNone
        \<longrightarrow> snd (parse_yolo_args t c d) = concat (map spec_flag_tokens d))"
  by (simp add: parse_yolo_args_def Let_def foldl_emit_arg resolve_device_def)

theorem parse_yolo_args_tokens_witness:
  "map_of [(''model'', PyStr ''yolov8n.pt''), (''data'', PyNone), (''imgsz'', PyInt 640),
           (''device'', PyStr ''cpu''), (''exist_ok'', PyBool True), (''verbose'', PyBool False),
           (''lr0'', PyObj ''0.01'')] ''device'' \<noteq> None
   \<and> map_of [(''model'', PyStr ''yolov8n.pt''), (''data'', PyNone), (''imgsz'', PyInt 640),
           (''device'', PyStr ''cpu''), (''exist_ok'', PyBool True), (''verbose'', PyBool False),
           (''lr0'', PyObj ''0.01'')] ''device'' \<noteq> Some PyNone
   \<and> snd (parse_yolo_args True True
        [(''model'', PyStr ''yolov8n.pt''), (''data'', PyNone), (''imgsz'', PyInt 640),
         (''device'', PyStr ''cpu''), (''exist_ok'', PyBool True), (''verbose'', PyBool False),
         (''lr0'', PyObj ''0.01'')])
     = [''--model'', ''yolov8n.pt'', ''--imgsz'', ''640'', ''--device'', ''cpu'', ''--exist_ok'',
        ''--lr0'', ''0.01'']"
  using parse_yolo_args_tokens [of True True
        "[(''model'', PyStr ''yolov8n.pt''), (''data'', PyNone), (''imgsz'', PyInt 640),
          (''device'', PyStr ''cpu''), (''exist_ok'', PyBool True), (''verbose'', PyBool False),
          (''lr0'', PyObj ''0.01'')]"]
  by (simp add: resolve_device_def str_int_def str_nat.simps digit_char_def)

text \<open>
  C7: the tokens of a request are those of its primary parameters (the entries without
  \<open>task\<close>), followed by those of the extra parameters, one entry after the other in the
  equals form: \<open>key=value\<close> for a value that is neither null nor a boolean, the bare
  \<open>key\<close> for \<^verbatim>\<open>true\<close>, nothing for \<^verbatim>\<open>false\<close> and for null.
\<close>

theorem process_request_args_extra:
  "process_request_args t c r =
     snd (parse_yolo_args t c (AList.delete ''task'' (entries r)))
     @ concat (map spec_extra_tokens (case extra_args r of Some (Some d) \<Rightarrow> d | _ \<Rightarrow> []))"
  by (simp add: process_request_args_def pop_extra_args_def Let_def foldl_emit_extra
           split: option.splits)

text \<open>
  C8: when the device is absent or null, the tokens hold the device flag followed by the
  resolved identifier, which is \<open>cuda\<close> when an accelerator is available and \<open>cpu\<close>
  otherwise; a mapping with a non-null device is left as it is and translated as it is.
\<close>

theorem parse_yolo_args_device:
  "(map_of d ''device'' = None \<or> map_of d ''device'' = Some PyNone \<longrightarrow>
      (\<exists>pre post. snd (parse_yolo_args t c d) = pre @ [''--device'', resolved_device t c] @ post)
      \<and> resolved_device t c = (if t \<and> c then ''cuda'' else ''cpu''))
   \<and> (map_of d ''device'' \<noteq> None \<and> map_of d ''device'' \<noteq> Some PyNone \<longrightarrow>
        fst (parse_yolo_args t c d) = d
        \<and> snd (parse_yolo_args t c d) = foldl emit_arg [] d)"
proof (intro conjI impI)
  assume absent: "map_of d ''device'' = None \<or> map_of d ''device'' = Some PyNone"
  let ?v = "PyStr (resolved_device t c)"
  obtain xs ys where split: "AList.update ''device'' ?v d = xs @ (''device'', ?v) # ys"
    using update_split [of "''device''" ?v d] by blast
  from absent have "snd (parse_yolo_args t c d) = concat (map spec_flag_tokens (AList.update ''device'' ?v d))"
    by (auto simp add: parse_yolo_args_def Let_def foldl_emit_arg resolve_device_def)
  also have "\<dots> = concat (map spec_flag_tokens xs) @ [''--device'', resolved_device t c]
                   @ concat (map spec_flag_tokens ys)"
    unfolding split by simp
  finally show "\<exists>pre post. snd (parse_yolo_args t c d) = pre @ [''--device'', resolved_device t c] @ post"
    by blast
next
  show "resolved_device t c = (if t \<and> c then ''cuda'' else ''cpu'')"
    by (simp add: resolved_device_def)
next
  assume "map_of d ''device'' \<noteq> None \<and> map_of d ''device'' \<noteq> Some PyNone"
  then show "fst (parse_yolo_args t c d) = d"
    by (auto simp add: parse_yolo_args_def Let_def resolve_device_def)
next
  assume "map_of d ''device'' \<noteq> None \<and> map_of d ''device'' \<noteq> Some PyNone"
  then show "snd (parse_yolo_args t c d) = foldl emit_arg [] d"
    by (auto simp add: parse_yolo_args_def Let_def resolve_device_def)
qed

theorem parse_yolo_args_device_witness:
  "(map_of [(''model'', PyStr ''yolov8n.pt''), (''imgsz'', PyInt 640)] ''device'' = None
      \<or> map_of [(''model'', PyStr ''yolov8n.pt''), (''imgsz'', PyInt 640)] ''device'' = Some PyNone)
   \<and> (\<exists>pre post. snd (parse_yolo_args True True [(''model'', PyStr ''yolov8n.pt''), (''imgsz'', PyInt 640)])
                   = pre @ [''--device'', ''cuda''] @ post)
   \<and> map_of [(''device'', PyStr ''0'')] ''device'' \<noteq> None
   \<and> map_of [(''device'', PyStr ''0'')] ''device'' \<noteq> Some PyNone
   \<and> fst (parse_yolo_args True True [(''device'', PyStr ''0'')]) = [(''device'', PyStr ''0'')]
   \<and> snd (parse_yolo_args True True [(''device'', PyStr ''0'')]) = [''--device'', ''0'']"
  using parse_yolo_args_device [of "[(''model'', PyStr ''yolov8n.pt''), (''imgsz'', PyInt 640)]" True True]
        parse_yolo_args_device [of "[(''device'', PyStr ''0'')]" True True]
  by (simp add: resolved_device_def)

text \<open>
  C10: when the device is absent or null, the mapping the caller passed holds the resolved
  device afterwards, and nothing else in it has changed: every other key has its value,
  the other entries are the same in the same order, and the key \<open>device\<close> keeps its place
  when it was there and is appended when it was not.
\<close>

theorem parse_yolo_args_writes_device:
  assumes "map_of d ''device'' = None \<or> map_of d ''device'' = Some PyNone"
  shows "map_of (fst (parse_yolo_args t c d)) ''device'' = Some (PyStr (resolved_device t c))
         \<and> (\<forall>k. k \<noteq> ''device'' \<longrightarrow> map_of (fst (parse_yolo_args t c d)) k = map_of d k)
         \<and> filter (\<lambda>e. fst e \<noteq> ''device'') (fst (parse_yolo_args t c d)) = filter (\<lambda>e. fst e \<noteq> ''device'') d
         \<and> map fst (fst (parse_yolo_args t c d))
             = (if ''device'' \<in> fst ` set d then map fst d else map fst d @ [''device''])"
proof -
  from assms have eq: "fst (parse_yolo_args t c d) = AList.update ''device'' (PyStr (resolved_device t c)) d"
    by (auto simp add: parse_yolo_args_def Let_def resolve_device_def)
  show ?thesis
    unfolding eq by (simp add: update_conv' update_filter_others update_key_order)
qed

theorem parse_yolo_args_writes_device_witness:
  "(map_of [(''model'', PyStr ''yolov8n.pt''), (''device'', PyNone), (''imgsz'', PyInt 640)] ''device'' = None
     \<or> map_of [(''model'', PyStr ''yolov8n.pt''), (''device'', PyNone), (''imgsz'', PyInt 640)] ''device'' = Some PyNone)
   \<and> fst (parse_yolo_args False True [(''model'', PyStr ''yolov8n.pt''), (''device'', PyNone), (''imgsz'', PyInt 640)])
       = [(''model'', PyStr ''yolov8n.pt''), (''device'', PyStr ''cpu''), (''imgsz'', PyInt 640)]
   \<and> map_of (fst (parse_yolo_args False True [(''model'', PyStr ''yolov8n.pt''), (''device'', PyNone), (''imgsz'', PyInt 640)])) ''device''
       = Some (PyStr ''cpu'')"
  using parse_yolo_args_writes_device [of "[(''model'', PyStr ''yolov8n.pt''), (''device'', PyNone), (''imgsz'', PyInt 640)]" False True]
  by (simp add: resolved_device_def parse_yolo_args_def resolve_device_def)

section \<open>The exceptions of the text parsers\<close>

text \<open>The only exception a text parser raises is the \<^verbatim>\<open>ValueError\<close> of \<^verbatim>\<open>float\<close>.\<close>

lemma py_float_error: "py_float s = Inl e \<Longrightarrow> \<exists>msg. e = PyException msg"
  by (auto simp add: py_float_def split: if_splits)

lemma scan_float_error: "scan_float name pat output m = Inl e \<Longrightarrow> \<exists>msg. e = PyException msg"
  by (auto simp add: scan_float_def Let_def split: if_splits sum.splits dest: py_float_error)

lemma scan_floats_error: "scan_floats ps buf m = Inl e \<Longrightarrow> \<exists>msg. e = PyException msg"
proof (induction ps buf m rule: scan_floats.induct)
  case (1 buf m)
  then show ?case by simp
next
  case (2 name pat ps buf m)
  show ?case
  proof (cases "scan_float name pat buf m")
    case (Inl e')
    with "2.prems" have "e' = e" by simp
    with Inl show ?thesis by (auto dest: scan_float_error)
  next
    case (Inr m')
    with "2.prems" have "scan_floats ps buf m' = Inl e" by simp
    with "2.IH" Inr show ?thesis by blast
  qed
qed

lemma parse_training_metrics_error:
  "parse_training_metrics output = Inl e \<Longrightarrow> \<exists>msg. e = PyException msg"
  unfolding parse_training_metrics_def Let_def
  by (auto split: sum.splits dest: scan_floats_error)

lemma parse_validation_metrics_error:
  "parse_validation_metrics output = Inl e \<Longrightarrow> \<exists>msg. e = PyException msg"
  unfolding parse_validation_metrics_def Let_def
  by (auto split: sum.splits if_splits dest: py_float_error)

lemma parse_prediction_metrics_error:
  "parse_prediction_metrics output = Inl e \<Longrightarrow> \<exists>msg. e = PyException msg"
  unfolding parse_prediction_metrics_def Let_def
  by (auto split: sum.splits if_splits dest: scan_float_error)

lemma parse_export_metrics_error:
  "parse_export_metrics output = Inl e \<Longrightarrow> \<exists>msg. e = PyException msg"
  unfolding parse_export_metrics_def Let_def
  by (auto split: sum.splits if_splits dest: scan_float_error)

lemma parse_metrics_from_output_error:
  "parse_metrics_from_output dir out err = Inl e \<Longrightarrow> \<exists>msg. e = PyException msg"
  unfolding parse_metrics_from_output_def Let_def
  by (auto split: sum.splits
        dest: parse_training_metrics_error parse_validation_metrics_error
              parse_prediction_metrics_error parse_export_metrics_error)

section \<open>Properties of \<^verbatim>\<open>run_ultralytics\<close>\<close>

lemma run_ultralytics_exception:
  "process w = Inl e \<Longrightarrow> run_ultralytics w args = handle (initial_result args) e"
  by (simp add: run_ultralytics_def try_body_def)

lemma run_ultralytics_stage_error:
  "process w = Inr (CompletedProcess rc out err) \<Longrightarrow>
   parse_metrics_from_output (cwd w) out err = Inl e \<Longrightarrow>
   run_ultralytics w args =
     handle ((initial_result args)\<lparr>return_code := Some rc, stdout := out, stderr := err,
                                    success := (rc = 0)\<rparr>) e"
  by (simp add: run_ultralytics_def try_body_def)

lemma run_ultralytics_completed:
  "process w = Inr (CompletedProcess rc out err) \<Longrightarrow>
   parse_metrics_from_output (cwd w) out err = Inr m \<Longrightarrow>
   run_ultralytics w args =
     (initial_result args)\<lparr>return_code := Some rc, stdout := out, stderr := err,
                            success := (rc = 0), metrics := m,
                            artifacts := find_artifacts (cwd w)\<rparr>"
  by (simp add: run_ultralytics_def try_body_def)

lemma handle_success: "raisable e \<Longrightarrow> success (handle r e) = (return_code (handle r e) = Some 0)"
  by (cases e) simp_all








text \<open>
  C2: for every outcome that can occur (a \<^verbatim>\<open>CalledProcessError\<close> never carries the
  return code zero), \<open>success\<close> holds exactly when \<open>return_code\<close> is zero.
\<close>

theorem run_ultralytics_success:
  assumes "possible w"
  shows "success (run_ultralytics w args) = (return_code (run_ultralytics w args) = Some 0)"
proof (cases "process w")
  case (Inl e)
  with assms have "raisable e" by (simp add: possible_def)
  then show ?thesis
    unfolding run_ultralytics_exception [OF Inl] by (rule handle_success)
next
  case (Inr p)
  obtain rc out err where p: "p = CompletedProcess rc out err" by (cases p)
  with Inr have proc: "process w = Inr (CompletedProcess rc out err)" by simp
  show ?thesis
  proof (cases "parse_metrics_from_output (cwd w) out err")
    case (Inl e)
    from parse_metrics_from_output_error [OF Inl] have "raisable e" by auto
    then show ?thesis
      unfolding run_ultralytics_stage_error [OF proc Inl] by (rule handle_success)
  next
    case (Inr m)
    show ?thesis
      unfolding run_ultralytics_completed [OF proc Inr] by simp
  qed
qed

theorem run_ultralytics_success_witness:
  "possible \<lparr>process = Inl (CalledProcessError 2 None (Some ''boom'')), cwd = Dir [] :: nat fs_node\<rparr>
   \<and> success (run_ultralytics
        \<lparr>process = Inl (CalledProcessError 2 None (Some ''boom'')), cwd = Dir [] :: nat fs_node\<rparr>
        [''val''])
     = (return_code (run_ultralytics
        \<lparr>process = Inl (CalledProcessError 2 None (Some ''boom'')), cwd = Dir [] :: nat fs_node\<rparr>
        [''val'']) = Some 0)"
  using run_ultralytics_success
          [of "\<lparr>process = Inl (CalledProcessError 2 None (Some ''boom'')), cwd = Dir [] :: nat fs_node\<rparr>"
              "[''val'']"]
  by (simp add: possible_def)





section \<open>Properties of the result-file collection\<close>

























section \<open>Properties of the text scans\<close>

subsection \<open>What a match consumes\<close>








subsection \<open>The scan from left to right\<close>







subsection \<open>The entries of the four parsers\<close>











subsection \<open>The entries of the extractor\<close>









lemma sample_epochs_ints: "py_int ''5'' = 5 \<and> py_int ''10'' = 10"
  by code_simp


end
